theory Spec2Isabelle
  imports Main "HOL-Library.List_Lexorder" "HOL-Library.Char_ord"
begin

section \<open>sandman2 application setup (sandman2/app.py)\<close>

text \<open>
  A shallow embedding of \<^verbatim>\<open>sandman2/app.py\<close>. The Flask application object is a
  record holding what the module writes to it (the configuration, \<^verbatim>\<open>app.classes\<close>,
  the arguments of every \<^verbatim>\<open>add_url_rule\<close> call in call order, the admin views, the
  error handlers). A model class is a record of the class attributes the module reads
  or writes. An exception raised while the application is built is a value
  \<open>Inl e\<close>; \<open>Inr app\<close> is the application that \<^verbatim>\<open>get_app\<close> returns. The
  functions keep their names without the leading underscore; the parameter
  \<^verbatim>\<open>reflect_all\<close> of \<^verbatim>\<open>get_app\<close> is \<open>reflect_all_flag\<close>. Of what Flask
  and SQLAlchemy do on their own, the model has the error for a reflected table that
  the database does not have and the sorted keys of a JSON object that Flask writes,
  and nothing else.
\<close>

subsection \<open>Python strings\<close>

text \<open>\<^verbatim>\<open>str.lower\<close>, on the ASCII letters.\<close>

definition lower_char :: "char \<Rightarrow> char" where
  "lower_char c =
     (case map_of (zip ''ABCDEFGHIJKLMNOPQRSTUVWXYZ'' ''abcdefghijklmnopqrstuvwxyz'') c of
        Some l \<Rightarrow> l
      | None \<Rightarrow> c)"

definition lower :: "string \<Rightarrow> string" where
  "lower s = map lower_char s"

text \<open>
  \<^verbatim>\<open>s.split(sep)\<close> for a one-character separator: the fields between every two
  occurrences of the separator, empty fields kept; the result is never empty.
\<close>

fun split :: "char \<Rightarrow> string \<Rightarrow> string list" where
  "split sep [] = [[]]"
| "split sep (c # cs) =
     (if c = sep then [] # split sep cs
      else (case split sep cs of
              [] \<Rightarrow> [[c]]
            | w # ws \<Rightarrow> (c # w) # ws))"


text \<open>
  \<^verbatim>\<open>str.isidentifier\<close> on ASCII names, and the names that a class statement cannot
  bind: the keywords of the language and \<^verbatim>\<open>__debug__\<close>.
\<close>

definition isidentifier :: "string \<Rightarrow> bool" where
  "isidentifier s =
     (s \<noteq> []
      \<and> hd s \<in> set ''_ABCDEFGHIJKLMNOPQRSTUVWXYZabcdefghijklmnopqrstuvwxyz''
      \<and> list_all
          (\<lambda>c. c \<in> set ''_ABCDEFGHIJKLMNOPQRSTUVWXYZabcdefghijklmnopqrstuvwxyz0123456789'')
          s)"

definition kwlist :: "string list" where
  "kwlist =
     [''False'', ''None'', ''True'', ''and'', ''as'', ''assert'', ''async'', ''await'',
      ''break'', ''class'', ''continue'', ''def'', ''del'', ''elif'', ''else'', ''except'',
      ''finally'', ''for'', ''from'', ''global'', ''if'', ''import'', ''in'', ''is'',
      ''lambda'', ''nonlocal'', ''not'', ''or'', ''pass'', ''raise'', ''return'', ''try'',
      ''while'', ''with'', ''yield'']"

definition bindable :: "string \<Rightarrow> bool" where
  "bindable s = (isidentifier s \<and> s \<notin> set kwlist \<and> s \<noteq> ''__debug__'')"

subsection \<open>Column types, columns, model classes\<close>

text \<open>
  Some of SQLAlchemy's generic column types. \<open>mro\<close> lists a type's class and its
  base classes among them (\<^verbatim>\<open>Text(String)\<close>, \<^verbatim>\<open>BigInteger(Integer)\<close>,
  \<^verbatim>\<open>Float(Numeric)\<close>), which is all that \<^verbatim>\<open>isinstance\<close> reads.
\<close>

datatype sqltype =
    String | Text | Integer | BigInteger | Numeric | Float
  | Boolean | DateTime | LargeBinary

fun mro :: "sqltype \<Rightarrow> sqltype list" where
  "mro String = [String]"
| "mro Text = [Text, String]"
| "mro Integer = [Integer]"
| "mro BigInteger = [BigInteger, Integer]"
| "mro Numeric = [Numeric]"
| "mro Float = [Float, Numeric]"
| "mro Boolean = [Boolean]"
| "mro DateTime = [DateTime]"
| "mro LargeBinary = [LargeBinary]"

definition isinstance :: "sqltype \<Rightarrow> sqltype \<Rightarrow> bool" where
  "isinstance t base = (base \<in> set (mro t))"

record column =
  col_name :: string
  col_type :: sqltype
  col_nullable :: bool
  col_primary_key :: bool

text \<open>
  A model class. \<open>methods_decl\<close> is \<open>Some ms\<close> when \<^verbatim>\<open>__methods__\<close> is in the
  class's own \<^verbatim>\<open>__dict__\<close> and \<open>None\<close> when it is not (an inherited value does not
  count). \<open>is_automap\<close> is \<^verbatim>\<open>issubclass(cls, AutomapModel)\<close>.
\<close>

record model =
  cls_name :: string
  tablename :: string
  table_columns :: "column list"
  methods_decl :: "string set option"
  url :: string
  is_automap :: bool

text \<open>\<^verbatim>\<open>type(cls.__name__ + 'Service', (Service,), {'__model__': cls})\<close>\<close>

record service =
  service_name :: string
  service_model :: model

text \<open>
  A view function made by \<^verbatim>\<open>cls.as_view(name)\<close>: its endpoint name and the service
  class it dispatches to.
\<close>

record view_function =
  endpoint :: string
  view_class :: service

text \<open>
  One call of \<^verbatim>\<open>current_app.add_url_rule\<close>: the rule string, whether
  \<^verbatim>\<open>defaults={'resource_id': None}\<close> was passed, the view function and the
  \<^verbatim>\<open>methods\<close> argument.
\<close>

record url_rule =
  rule :: string
  defaults_resource_id :: bool
  view_func :: view_function
  rule_methods :: "string set"

record app =
  config_database_uri :: string
  config_read_only :: bool
  config_track_modifications :: bool
  classes :: "service list"
  url_map :: "url_rule list"
  admin_views :: "model list"
  error_handlers :: "string list"
  prepare_calls :: "string option list"

text \<open>
  The database behind \<^verbatim>\<open>db.engine\<close>: the classes that \<^verbatim>\<open>AutomapModel.classes\<close>
  holds once \<^verbatim>\<open>AutomapModel.prepare\<close> has reflected it, and the columns that
  reflecting one table or view by name (\<^verbatim>\<open>autoload=True\<close>) reports, \<open>None\<close> for a
  name the database does not have.
\<close>

record database =
  automap_classes :: "model list"
  reflect_table :: "string \<Rightarrow> column list option"

datatype error = IndexError | SyntaxError | NoSuchTableError

subsection \<open>\<^verbatim>\<open>register_service\<close>\<close>

definition as_view :: "service \<Rightarrow> string \<Rightarrow> view_function" where
  "as_view cls name = \<lparr>endpoint = name, view_class = cls\<rparr>"

definition add_url_rule :: "string \<Rightarrow> bool \<Rightarrow> view_function \<Rightarrow> string set \<Rightarrow> app \<Rightarrow> app" where
  "add_url_rule r dflt vf ms a =
     a\<lparr>url_map := url_map a @
         [\<lparr>rule = r, defaults_resource_id = dflt, view_func = vf, rule_methods = ms\<rparr>]\<rparr>"

definition methods_of :: "service \<Rightarrow> string set" where
  "methods_of cls =
     (case methods_decl (service_model cls) of
        Some ms \<Rightarrow> ms
      | None \<Rightarrow> {''GET'', ''POST''})"

definition register_service :: "service \<Rightarrow> string \<Rightarrow> app \<Rightarrow> app" where
  "register_service cls primary_key_type a =
     (let view_func = as_view cls (lower (service_name cls));
          methods = methods_of cls;
          u = url (service_model cls);
          a1 = (if ''GET'' \<in> methods
                then add_url_rule (u @ ''/meta'') False view_func {''GET''}
                       (add_url_rule (u @ ''/'') True view_func {''GET''} a)
                else a);
          a2 = (if ''POST'' \<in> methods
                then add_url_rule (u @ ''/'') False view_func {''POST''} a1
                else a1);
          a3 = add_url_rule (u @ ''/<'' @ primary_key_type @ '':resource_id>'') False
                 view_func (methods - {''POST''}) a2
      in a3\<lparr>classes := classes a3 @ [cls]\<rparr>)"

subsection \<open>\<^verbatim>\<open>register_model\<close>\<close>

text \<open>\<^verbatim>\<open>list(cls().__table__.primary_key.columns)\<close>\<close>

definition primary_key_columns :: "model \<Rightarrow> column list" where
  "primary_key_columns cls = filter col_primary_key (table_columns cls)"

text \<open>The value of the local \<^verbatim>\<open>primary_key_type\<close> when \<^verbatim>\<open>register_service\<close> is called.\<close>

definition primary_key_type :: "column list \<Rightarrow> string" where
  "primary_key_type cols =
     (if length cols = 1 then
        (let t = col_type (hd cols) in
         if isinstance t String then ''string''
         else if isinstance t Integer then ''int''
         else if isinstance t Numeric then ''float''
         else ''string'')
      else ''string'')"

definition service_class :: "model \<Rightarrow> service" where
  "service_class cls = \<lparr>service_name = cls_name cls @ ''Service'', service_model = cls\<rparr>"

definition set_url :: "model \<Rightarrow> model" where
  "set_url cls = cls\<lparr>url := ''/'' @ lower (cls_name cls)\<rparr>"

text \<open>\<open>admin\<close> is \<^verbatim>\<open>admin is not None\<close>.\<close>

definition register_model :: "model \<Rightarrow> bool \<Rightarrow> app \<Rightarrow> app" where
  "register_model cls0 admin a =
     (let cls = set_url cls0;
          a1 = register_service (service_class cls)
                 (primary_key_type (primary_key_columns cls)) a
      in if admin then a1\<lparr>admin_views := admin_views a1 @ [cls]\<rparr> else a1)"

subsection \<open>The three discovery modes\<close>

definition prepare :: "string option \<Rightarrow> app \<Rightarrow> app" where
  "prepare schema a = a\<lparr>prepare_calls := prepare_calls a @ [schema]\<rparr>"

text \<open>
  \<^verbatim>\<open>_reflect_all\<close>. \<^verbatim>\<open>exclude_tables and cls.__table__.name in exclude_tables\<close>
  is false for \<^verbatim>\<open>None\<close> and for the empty list.
\<close>

definition excluded :: "string list option \<Rightarrow> model \<Rightarrow> bool" where
  "excluded exclude_tables cls =
     (case exclude_tables of
        None \<Rightarrow> False
      | Some ex \<Rightarrow> ex \<noteq> [] \<and> tablename cls \<in> set ex)"

fun reflect_loop :: "string list option \<Rightarrow> bool \<Rightarrow> bool \<Rightarrow> model list \<Rightarrow> app \<Rightarrow> app" where
  "reflect_loop exclude_tables admin read_only [] a = a"
| "reflect_loop exclude_tables admin read_only (cls # rest) a =
     (if excluded exclude_tables cls then reflect_loop exclude_tables admin read_only rest a
      else reflect_loop exclude_tables admin read_only rest
             (register_model
                (if read_only then cls\<lparr>methods_decl := Some {''GET''}\<rparr> else cls) admin a))"

definition reflect_all ::
  "database \<Rightarrow> string list option \<Rightarrow> bool \<Rightarrow> bool \<Rightarrow> string option \<Rightarrow> app \<Rightarrow> app" where
  "reflect_all db exclude_tables admin read_only schema a =
     reflect_loop exclude_tables admin read_only (automap_classes db) (prepare schema a)"

text \<open>\<^verbatim>\<open>_register_user_models\<close>\<close>

definition register_user_models :: "model list \<Rightarrow> bool \<Rightarrow> string option \<Rightarrow> app \<Rightarrow> app" where
  "register_user_models user_models admin schema a =
     fold (\<lambda>user_model. register_model user_model admin) user_models
       (if list_ex is_automap user_models then prepare schema a else a)"

text \<open>
  \<^verbatim>\<open>_register_view_models\<close>. One pass of the loop body up to the call of
  \<^verbatim>\<open>register_model\<close> builds the class: indexing the tuple raises
  \<^verbatim>\<open>IndexError\<close> when it has fewer than three fields; \<^verbatim>\<open>exec(LOC, globals())\<close>
  raises \<^verbatim>\<open>SyntaxError\<close> when the class statement written from the tuple does not
  compile, which is when \<^verbatim>\<open>view_name\<close> or \<^verbatim>\<open>pk_name\<close> is not a name that a
  statement can bind, and otherwise defines a class named \<^verbatim>\<open>view_name\<close> on the table
  of that name with the one primary-key column; reflecting the table raises for a name
  the database does not have; every reflected column but the one named
  \<^verbatim>\<open>pk_name\<close> is attached as \<^verbatim>\<open>db.Column(col_name, col.type, nullable=True)\<close>.
  The check of the names is the one for ASCII identifiers. A name outside it is taken
  not to compile, as an empty name or a name with a dash does not; where Python would
  still accept the statement (letters outside ASCII, blanks around the name, a key name
  such as \<^verbatim>\<open>id:int\<close>) the model errs on the side of the failure, and no property
  below concludes anything from a \<^verbatim>\<open>SyntaxError\<close>: the properties of view
  registration are stated for names that pass the check.
\<close>

definition pktype_of :: "string \<Rightarrow> sqltype" where
  "pktype_of pktype_str =
     (if pktype_str = ''string'' then String
      else if pktype_str = ''int'' then Integer
      else Float)"

definition attach_columns :: "string \<Rightarrow> column list \<Rightarrow> column list" where
  "attach_columns pk_name columns =
     map (\<lambda>col. \<lparr>col_name = col_name col, col_type = col_type col,
                  col_nullable = True, col_primary_key = False\<rparr>)
       (filter (\<lambda>col. col_name col \<noteq> pk_name) columns)"

definition view_model :: "database \<Rightarrow> string list \<Rightarrow> error + model" where
  "view_model db viewpktype_tuple =
     (if length viewpktype_tuple < 3 then Inl IndexError
      else
        (let view_name = viewpktype_tuple ! 0;
             pk_name = viewpktype_tuple ! 1;
             pktype_str = viewpktype_tuple ! 2;
             pk = \<lparr>col_name = pk_name, col_type = pktype_of pktype_str,
                   col_nullable = False, col_primary_key = True\<rparr>
         in if \<not> (bindable view_name \<and> bindable pk_name) then Inl SyntaxError
            else
              (case reflect_table db view_name of
                 None \<Rightarrow> Inl NoSuchTableError
               | Some columns \<Rightarrow>
                   Inr \<lparr>cls_name = view_name, tablename = view_name,
                        table_columns = pk # attach_columns pk_name columns,
                        methods_decl = None, url = [], is_automap = False\<rparr>)))"




fun register_view_models ::
  "database \<Rightarrow> string list list \<Rightarrow> bool \<Rightarrow> string option \<Rightarrow> app \<Rightarrow> error + app" where
  "register_view_models db [] admin schema a = Inr a"
| "register_view_models db (viewpktype_tuple # rest) admin schema a =
     (case view_model db viewpktype_tuple of
        Inl e \<Rightarrow> Inl e
      | Inr model_class \<Rightarrow>
          register_view_models db rest admin schema (register_model model_class admin a))"

subsection \<open>\<^verbatim>\<open>get_app\<close>\<close>

definition register_error_handlers :: "app \<Rightarrow> app" where
  "register_error_handlers a =
     a\<lparr>error_handlers := error_handlers a @
         [''ServiceUnavailableException'', ''NotImplementedException'',
          ''ServerErrorException'', ''ConflictException'', ''NotFoundException'',
          ''NotAcceptableException'', ''ForbiddenException'', ''BadRequestException'']\<rparr>"

definition new_app :: "string \<Rightarrow> bool \<Rightarrow> app" where
  "new_app database_uri read_only =
     register_error_handlers
       \<lparr>config_database_uri = database_uri, config_read_only = read_only,
        config_track_modifications = False, classes = [], url_map = [],
        admin_views = [], error_handlers = [], prepare_calls = []\<rparr>"

text \<open>\<^verbatim>\<open>list(map(lambda v: tuple(v.split('/')), str_viewpktype.split(',')))\<close>\<close>

definition l_viewpktype_tuple :: "string \<Rightarrow> string list list" where
  "l_viewpktype_tuple str_viewpktype = map (split CHR ''/'') (split CHR '','' str_viewpktype)"

text \<open>
  \<^verbatim>\<open>get_app\<close>, with the database that \<^verbatim>\<open>database_uri\<close> names as a further
  argument. \<^verbatim>\<open>if user_models\<close> is false for \<^verbatim>\<open>None\<close> and for the empty list.
\<close>

definition truthy :: "'a list option \<Rightarrow> bool" where
  "truthy xs = (case xs of None \<Rightarrow> False | Some l \<Rightarrow> l \<noteq> [])"

definition list_of :: "'a list option \<Rightarrow> 'a list" where
  "list_of xs = (case xs of None \<Rightarrow> [] | Some l \<Rightarrow> l)"

definition get_app ::
  "database \<Rightarrow> string \<Rightarrow> string list option \<Rightarrow> model list option \<Rightarrow> bool \<Rightarrow> bool \<Rightarrow>
   string option \<Rightarrow> string option \<Rightarrow> error + app" where
  "get_app db database_uri exclude_tables user_models reflect_all_flag read_only schema
     str_viewpktype =
     (let a0 = new_app database_uri read_only;
          a1 = (if truthy user_models
                then register_user_models (list_of user_models) True schema a0
                else if reflect_all_flag
                then reflect_all db exclude_tables True read_only schema a0
                else a0)
      in case str_viewpktype of
           None \<Rightarrow> Inr a1
         | Some s \<Rightarrow> register_view_models db (l_viewpktype_tuple s) True schema a1)"

subsection \<open>The index view\<close>

text \<open>
  Modelled from the spec: the class method \<^verbatim>\<open>Model.primary_key\<close> of
  \<^verbatim>\<open>sandman2/model.py\<close>, which \<^verbatim>\<open>index\<close> calls, is not among the sources. The
  spec gives a resource the field \<^emph>\<open>primary_key_name: the column name serving as
  primary key\<close>, says that \<^emph>\<open>composite primary keys are not individually tracked\<close>
  and that primary-key routing \<^emph>\<open>cannot function without one\<close>: the result is the
  name of the first primary-key column, and there is none for a class without one. For
  a key of several columns the spec names no column; the properties of \<^verbatim>\<open>index\<close>
  below are about keys of one column.
\<close>

definition primary_key :: "model \<Rightarrow> string option" where
  "primary_key cls =
     (case primary_key_columns cls of
        [] \<Rightarrow> None
      | c # _ \<Rightarrow> Some (col_name c))"

text \<open>\<^verbatim>\<open>routes[k] = v\<close> on a dictionary kept in insertion order.\<close>

fun setitem :: "('k \<times> 'v) list \<Rightarrow> 'k \<Rightarrow> 'v \<Rightarrow> ('k \<times> 'v) list" where
  "setitem [] k v = [(k, v)]"
| "setitem ((k', v') # kvs) k v =
     (if k' = k then (k', v) # kvs else (k', v') # setitem kvs k v)"

text \<open>
  The loop of \<^verbatim>\<open>index\<close> over \<^verbatim>\<open>app.classes\<close>: the dictionary \<^verbatim>\<open>routes\<close>,
  \<open>None\<close> when a \<^verbatim>\<open>primary_key()\<close> call has no result.
\<close>

fun index_loop :: "service list \<Rightarrow> (string \<times> string) list \<Rightarrow> (string \<times> string) list option" where
  "index_loop [] routes = Some routes"
| "index_loop (cls # rest) routes =
     (case primary_key (service_model cls) of
        None \<Rightarrow> None
      | Some pk \<Rightarrow>
          index_loop rest
            (setitem routes (cls_name (service_model cls))
               (url (service_model cls) @ ''{/'' @ pk @ ''}'')))"

text \<open>
  \<^verbatim>\<open>jsonify(routes)\<close>: the JSON object of the response body, as the list of its
  members in the order they are written. Flask writes the members of a dictionary
  sorted by key (its \<^verbatim>\<open>JSON_SORT_KEYS\<close> default); strings compare character by
  character.
\<close>

definition jsonify :: "(string \<times> string) list \<Rightarrow> (string \<times> string) list" where
  "jsonify routes = sort_key fst routes"

text \<open>\<^verbatim>\<open>index\<close>: the body of the response to \<^verbatim>\<open>GET /\<close>, \<open>None\<close> when the view raises.\<close>

definition index :: "app \<Rightarrow> (string \<times> string) list option" where
  "index a = map_option jsonify (index_loop (classes a) [])"

section \<open>Properties\<close>

subsection \<open>Effects of the registration functions\<close>

text \<open>
  What \<^verbatim>\<open>register_service\<close> and \<^verbatim>\<open>register_model\<close> add to the rules and to the
  registry of an application.
\<close>

lemma url_map_add_url_rule:
  "url_map (add_url_rule r d vf ms a) =
     url_map a @ [\<lparr>rule = r, defaults_resource_id = d, view_func = vf, rule_methods = ms\<rparr>]"
  by (simp add: add_url_rule_def)

lemma classes_add_url_rule: "classes (add_url_rule r d vf ms a) = classes a"
  by (simp add: add_url_rule_def)

lemma classes_register_service: "classes (register_service cls pkt a) = classes a @ [cls]"
  by (simp add: register_service_def Let_def classes_add_url_rule)

lemma classes_register_model:
  "classes (register_model cls admin a) = classes a @ [service_class (set_url cls)]"
  by (simp add: register_model_def Let_def classes_register_service)

lemma GET_POST_minus_POST: "{''GET'', ''POST''} - {''POST''} = {''GET''}"
  by auto

lemma url_map_register_service_default:
  assumes "methods_decl (service_model cls) = None"
  shows "url_map (register_service cls pkt a) = url_map a @
     [\<lparr>rule = url (service_model cls) @ ''/'', defaults_resource_id = True,
       view_func = as_view cls (lower (service_name cls)), rule_methods = {''GET''}\<rparr>,
      \<lparr>rule = url (service_model cls) @ ''/meta'', defaults_resource_id = False,
       view_func = as_view cls (lower (service_name cls)), rule_methods = {''GET''}\<rparr>,
      \<lparr>rule = url (service_model cls) @ ''/'', defaults_resource_id = False,
       view_func = as_view cls (lower (service_name cls)), rule_methods = {''POST''}\<rparr>,
      \<lparr>rule = url (service_model cls) @ ''/<'' @ pkt @ '':resource_id>'',
       defaults_resource_id = False,
       view_func = as_view cls (lower (service_name cls)), rule_methods = {''GET''}\<rparr>]"
  using assms
  by (simp add: register_service_def Let_def url_map_add_url_rule methods_of_def
        GET_POST_minus_POST)

lemma url_map_register_model:
  "url_map (register_model cls admin a) =
     url_map (register_service (service_class (set_url cls))
                (primary_key_type (primary_key_columns cls)) a)"
  by (simp add: register_model_def Let_def primary_key_columns_def set_url_def)

lemma rules_register_service:
  "url_map (register_service cls pkt a) = url_map a @
     (if ''GET'' \<in> methods_of cls
      then [\<lparr>rule = url (service_model cls) @ ''/'', defaults_resource_id = True,
             view_func = as_view cls (lower (service_name cls)), rule_methods = {''GET''}\<rparr>,
            \<lparr>rule = url (service_model cls) @ ''/meta'', defaults_resource_id = False,
             view_func = as_view cls (lower (service_name cls)), rule_methods = {''GET''}\<rparr>]
      else []) @
     (if ''POST'' \<in> methods_of cls
      then [\<lparr>rule = url (service_model cls) @ ''/'', defaults_resource_id = False,
             view_func = as_view cls (lower (service_name cls)), rule_methods = {''POST''}\<rparr>]
      else []) @
     [\<lparr>rule = url (service_model cls) @ ''/<'' @ pkt @ '':resource_id>'',
       defaults_resource_id = False,
       view_func = as_view cls (lower (service_name cls)),
       rule_methods = methods_of cls - {''POST''}\<rparr>]"
  by (simp add: register_service_def Let_def url_map_add_url_rule)

lemma methods_of_registered:
  "methods_of (service_class (set_url c)) =
     (case methods_decl c of Some ms \<Rightarrow> ms | None \<Rightarrow> {''GET'', ''POST''})"
  by (simp add: methods_of_def service_class_def set_url_def)

lemma rule_pairs_register_model:
  "map (\<lambda>r. (rule r, rule_methods r)) (url_map (register_model c admin a)) =
     map (\<lambda>r. (rule r, rule_methods r)) (url_map a) @
     (if ''GET'' \<in> methods_of (service_class (set_url c))
      then [(''/'' @ lower (cls_name c) @ ''/'', {''GET''}),
            (''/'' @ lower (cls_name c) @ ''/meta'', {''GET''})]
      else []) @
     (if ''POST'' \<in> methods_of (service_class (set_url c))
      then [(''/'' @ lower (cls_name c) @ ''/'', {''POST''})]
      else []) @
     [(''/'' @ lower (cls_name c) @ ''/<'' @ primary_key_type (primary_key_columns c)
         @ '':resource_id>'',
       methods_of (service_class (set_url c)) - {''POST''})]"
proof -
  have u: "url (service_model (service_class (set_url c))) = ''/'' @ lower (cls_name c)"
    by (simp add: service_class_def set_url_def)
  show ?thesis
    unfolding url_map_register_model rules_register_service u
    by simp
qed

lemma register_service_rules:
  "\<exists>rs. url_map (register_service cls pkt a) = url_map a @ rs
        \<and> (\<forall>r \<in> set rs. view_class (view_func r) = cls)"
  by (simp add: register_service_def Let_def url_map_add_url_rule as_view_def)

lemma register_model_rules:
  "\<exists>rs. url_map (register_model c admin a) = url_map a @ rs
        \<and> (\<forall>r \<in> set rs. view_class (view_func r) = service_class (set_url c))"
  using register_service_rules
    [of "service_class (set_url c)" "primary_key_type (primary_key_columns c)" a]
  by (simp only: url_map_register_model)

lemma item_rule_register_model:
  "\<lparr>rule = ''/'' @ lower (cls_name m) @ ''/<'' @ primary_key_type (primary_key_columns m)
             @ '':resource_id>'',
    defaults_resource_id = False,
    view_func = as_view (service_class (set_url m)) (lower (cls_name m @ ''Service'')),
    rule_methods = methods_of (service_class (set_url m)) - {''POST''}\<rparr>
   \<in> set (url_map (register_model m admin a))"
proof -
  have u: "url (service_model (service_class (set_url m))) = ''/'' @ lower (cls_name m)"
    by (simp add: service_class_def set_url_def)
  have n: "service_name (service_class (set_url m)) = cls_name m @ ''Service''"
    by (simp add: service_class_def set_url_def)
  show ?thesis
    unfolding url_map_register_model rules_register_service u n
    by simp
qed




lemma fold_register_model_classes:
  "classes (fold (\<lambda>m. register_model m admin) ms a) =
     classes a @ map (\<lambda>m. service_class (set_url m)) ms"
  by (induction ms arbitrary: a) (simp_all add: classes_register_model)

text \<open>
  The new application, and \<^verbatim>\<open>get_app\<close> without and with a view specification.
\<close>

lemma url_map_new_app: "url_map (new_app uri ro) = []"
  by (simp add: new_app_def register_error_handlers_def)

lemma classes_new_app: "classes (new_app uri ro) = []"
  by (simp add: new_app_def register_error_handlers_def)

lemma classes_prepare: "classes (prepare schema a) = classes a"
  by (simp add: prepare_def)

lemma url_map_prepare: "url_map (prepare schema a) = url_map a"
  by (simp add: prepare_def)

lemma classes_register_user_models:
  "classes (register_user_models ms admin schema a) =
     classes a @ map (\<lambda>m. service_class (set_url m)) ms"
  by (simp add: register_user_models_def fold_register_model_classes classes_prepare)

lemma get_app_no_views:
  "get_app db uri ex um flag ro schema None =
     Inr (if truthy um then register_user_models (list_of um) True schema (new_app uri ro)
          else if flag then reflect_all db ex True ro schema (new_app uri ro)
          else new_app uri ro)"
  by (simp add: get_app_def Let_def)

lemma get_app_views:
  "get_app db uri ex um flag ro schema (Some s) =
     register_view_models db (l_viewpktype_tuple s) True schema
       (projr (get_app db uri ex um flag ro schema None))"
  by (simp add: get_app_def Let_def)

text \<open>
  The loop of \<^verbatim>\<open>_reflect_all\<close>: the services and the rules it adds belong to classes
  that are not excluded.
\<close>

lemma excluded_registered:
  "excluded ex (service_model (service_class (set_url c))) = excluded ex c"
  by (simp add: excluded_def service_class_def set_url_def split: option.splits)

lemma excluded_methods_update:
  "excluded ex (c\<lparr>methods_decl := m\<rparr>) = excluded ex c"
  by (simp add: excluded_def split: option.splits)

lemma excluded_Some: "t \<in> set ex \<Longrightarrow> excluded (Some ex) c = (tablename c \<in> set ex)"
  by (auto simp add: excluded_def)

lemma reflect_loop_classes:
  "classes (reflect_loop ex admin ro cs a) = classes a @
     map (\<lambda>c. service_class (set_url (if ro then c\<lparr>methods_decl := Some {''GET''}\<rparr> else c)))
       (filter (\<lambda>c. \<not> excluded ex c) cs)"
  by (induction cs arbitrary: a) (simp_all add: classes_register_model)

lemma reflect_loop_rules:
  "\<exists>rs. url_map (reflect_loop ex admin ro cs a) = url_map a @ rs
        \<and> (\<forall>r \<in> set rs. \<not> excluded ex (service_model (view_class (view_func r))))"
proof (induction cs arbitrary: a)
  case Nil
  then show ?case by simp
next
  case (Cons c cs)
  show ?case
  proof (cases "excluded ex c")
    case True
    then show ?thesis using Cons.IH [of a] by simp
  next
    case False
    let ?c = "if ro then c\<lparr>methods_decl := Some {''GET''}\<rparr> else c"
    let ?a = "register_model ?c admin a"
    have nex: "\<not> excluded ex ?c"
      using False by (simp add: excluded_methods_update)
    obtain rs1 where rs1: "url_map ?a = url_map a @ rs1"
        "\<forall>r \<in> set rs1. view_class (view_func r) = service_class (set_url ?c)"
      using register_model_rules [of ?c admin a] by blast
    obtain rs2 where rs2: "url_map (reflect_loop ex admin ro cs ?a) = url_map ?a @ rs2"
        "\<forall>r \<in> set rs2. \<not> excluded ex (service_model (view_class (view_func r)))"
      using Cons.IH [of ?a] by blast
    have step: "reflect_loop ex admin ro (c # cs) a = reflect_loop ex admin ro cs ?a"
      using False by simp
    have "url_map (reflect_loop ex admin ro (c # cs) a) = url_map a @ (rs1 @ rs2)"
      by (simp only: step rs2(1) rs1(1) append_assoc)
    moreover have "\<forall>r \<in> set (rs1 @ rs2).
        \<not> excluded ex (service_model (view_class (view_func r)))"
      using rs1(2) rs2(2) nex by (auto simp add: excluded_registered)
    ultimately show ?thesis by blast
  qed
qed












lemma register_view_models_classes:
  "register_view_models db ts admin schema a = Inr a' \<Longrightarrow>
   \<exists>views. map (view_model db) ts = map Inr views
      \<and> classes a' = classes a @ map (\<lambda>m. service_class (set_url m)) views"
proof (induction ts arbitrary: a)
  case Nil
  then show ?case by simp
next
  case (Cons t ts)
  show ?case
  proof (cases "view_model db t")
    case (Inl e)
    then show ?thesis using Cons.prems by simp
  next
    case (Inr m)
    then have "register_view_models db ts admin schema (register_model m admin a) = Inr a'"
      using Cons.prems by simp
    then obtain views where views: "map (view_model db) ts = map Inr views"
        "classes a' = classes (register_model m admin a)
           @ map (\<lambda>m. service_class (set_url m)) views"
      using Cons.IH by blast
    have "map (view_model db) (t # ts) = map Inr (m # views)"
      using Inr views(1) by simp
    moreover have "classes a' = classes a @ map (\<lambda>m. service_class (set_url m)) (m # views)"
      using views(2) by (simp add: classes_register_model)
    ultimately show ?thesis by blast
  qed
qed

text \<open>
  Every service in the registry of an application built by \<^verbatim>\<open>get_app\<close> was made by
  \<^verbatim>\<open>register_model\<close>, so its model has the URL \<open>/name\<close> in lower case.
\<close>

lemma url_service_class:
  "url (service_model (service_class (set_url m))) =
     ''/'' @ lower (cls_name (service_model (service_class (set_url m))))"
  by (simp add: service_class_def set_url_def)

lemma get_app_classes_shape:
  assumes "get_app db uri ex um flag ro schema sv = Inr a"
  shows "\<exists>ms. classes a = map (\<lambda>m. service_class (set_url m)) ms"
proof -
  let ?a1 = "projr (get_app db uri ex um flag ro schema None)"
  have a1: "\<exists>ms. classes ?a1 = map (\<lambda>m. service_class (set_url m)) ms"
  proof (cases "truthy um")
    case True
    then have "classes ?a1 = map (\<lambda>m. service_class (set_url m)) (list_of um)"
      by (simp add: get_app_no_views classes_register_user_models classes_new_app)
    then show ?thesis by blast
  next
    case False
    show ?thesis
    proof (cases flag)
      case True
      have "classes (reflect_all db ex True ro schema (new_app uri ro)) =
          map (\<lambda>m. service_class (set_url m))
            (map (\<lambda>c. if ro then c\<lparr>methods_decl := Some {''GET''}\<rparr> else c)
               (filter (\<lambda>c. \<not> excluded ex c) (automap_classes db)))"
        by (simp add: reflect_all_def reflect_loop_classes classes_prepare classes_new_app
              comp_def)
      then show ?thesis
        using False True by (simp only: get_app_no_views if_True if_False sum.sel) blast
    next
      case f: False
      have "classes (new_app uri ro) = map (\<lambda>m. service_class (set_url m)) []"
        by (simp add: classes_new_app)
      then show ?thesis
        using False f by (simp only: get_app_no_views if_True if_False sum.sel) blast
    qed
  qed
  show ?thesis
  proof (cases sv)
    case None
    then show ?thesis using assms a1 by auto
  next
    case (Some s)
    then have "register_view_models db (l_viewpktype_tuple s) True schema ?a1 = Inr a"
      using assms by (simp only: get_app_views)
    then obtain views where "classes a = classes ?a1 @ map (\<lambda>m. service_class (set_url m)) views"
      using register_view_models_classes by blast
    moreover obtain ms where "classes ?a1 = map (\<lambda>m. service_class (set_url m)) ms"
      using a1 by blast
    ultimately have "classes a = map (\<lambda>m. service_class (set_url m)) (ms @ views)"
      by simp
    then show ?thesis by blast
  qed
qed

lemma get_app_urls:
  assumes "get_app db uri ex um flag ro schema sv = Inr a"
    and "s \<in> set (classes a)"
  shows "url (service_model s) = ''/'' @ lower (cls_name (service_model s))"
proof -
  obtain ms where "classes a = map (\<lambda>m. service_class (set_url m)) ms"
    using get_app_classes_shape [OF assms(1)] by blast
  then obtain m where "s = service_class (set_url m)"
    using assms(2) by auto
  then show ?thesis by (simp only: url_service_class)
qed

text \<open>
  The loop of \<^verbatim>\<open>index\<close> on resources with distinct names.
\<close>

lemma setitem_fresh: "k \<notin> fst ` set kvs \<Longrightarrow> setitem kvs k v = kvs @ [(k, v)]"
  by (induction kvs) auto

lemma index_loop_distinct:
  assumes "distinct (map (\<lambda>s. cls_name (service_model s)) cs)"
    and "\<forall>s \<in> set cs. primary_key_columns (service_model s) \<noteq> []"
    and "\<forall>s \<in> set cs. cls_name (service_model s) \<notin> fst ` set routes"
  shows "index_loop cs routes =
     Some (routes @ map (\<lambda>s. (cls_name (service_model s),
                  url (service_model s) @ ''{/''
                    @ col_name (hd (primary_key_columns (service_model s))) @ ''}'')) cs)"
  using assms
proof (induction cs arbitrary: routes)
  case Nil
  then show ?case by simp
next
  case (Cons c cs)
  obtain k ks where pk: "primary_key_columns (service_model c) = k # ks"
    using Cons.prems(2) by (cases "primary_key_columns (service_model c)") auto
  have fresh: "cls_name (service_model c) \<notin> fst ` set routes"
    using Cons.prems(3) by simp
  let ?routes = "routes @ [(cls_name (service_model c),
       url (service_model c) @ ''{/'' @ col_name k @ ''}'')]"
  have "index_loop cs ?routes = Some (?routes @ map (\<lambda>s. (cls_name (service_model s),
                  url (service_model s) @ ''{/''
                    @ col_name (hd (primary_key_columns (service_model s))) @ ''}'')) cs)"
  proof (rule Cons.IH)
    show "distinct (map (\<lambda>s. cls_name (service_model s)) cs)"
      using Cons.prems(1) by simp
    show "\<forall>s \<in> set cs. primary_key_columns (service_model s) \<noteq> []"
      using Cons.prems(2) by simp
    show "\<forall>s \<in> set cs. cls_name (service_model s) \<notin> fst ` set ?routes"
      using Cons.prems(1,3) by (auto simp add: image_iff)
  qed
  then show ?case
    by (simp add: primary_key_def pk setitem_fresh [OF fresh])
qed

lemma sole_primary_key:
  assumes "k \<in> set (table_columns m)" and "col_primary_key k"
    and "\<forall>c \<in> set (table_columns m). col_primary_key c \<longrightarrow> c = k"
  shows "primary_key_columns m \<noteq> []" and "hd (primary_key_columns m) = k"
proof -
  have mem: "k \<in> set (primary_key_columns m)"
    using assms(1,2) by (simp add: primary_key_columns_def)
  then show ne: "primary_key_columns m \<noteq> []" by auto
  have "hd (primary_key_columns m) \<in> set (primary_key_columns m)"
    using ne by simp
  then show "hd (primary_key_columns m) = k"
    using assms(3) by (simp add: primary_key_columns_def)
qed

subsection \<open>C1: the read-only flag\<close>

text \<open>
  Claim C1 says that with the read-only flag set every registered resource allows
  exactly \<open>{GET}\<close>, whatever the resource declares and whichever mode registered it.
  Only \<^verbatim>\<open>_reflect_all\<close> receives the flag. In the first run \<^verbatim>\<open>get_app\<close> is called
  with \<^verbatim>\<open>read_only=True\<close>, one user model that declares
  \<^verbatim>\<open>__methods__ = {'GET', 'POST', 'PUT', 'DELETE'}\<close> and the view specification
  \<^verbatim>\<open>reports/report_id/int\<close>: the user model keeps \<^verbatim>\<open>POST\<close> on its collection
  path and \<^verbatim>\<open>PUT\<close> and \<^verbatim>\<open>DELETE\<close> on its item path, and the view gets the default
  \<^verbatim>\<open>POST\<close> rule. In the second run a class with the same declaration is found by
  reflection, and only \<^verbatim>\<open>GET\<close> rules are bound.
\<close>

theorem read_only_ignored_outside_reflection:
  "(case get_app
        \<lparr>automap_classes = [],
         reflect_table =
           [''reports'' \<mapsto> [\<lparr>col_name = ''report_id'', col_type = Integer,
                                col_nullable = True, col_primary_key = False\<rparr>]]\<rparr>
        ''sqlite:///db.sqlite3'' None
        (Some [\<lparr>cls_name = ''Artist'', tablename = ''artist'',
                table_columns = [\<lparr>col_name = ''id'', col_type = Integer,
                                  col_nullable = False, col_primary_key = True\<rparr>],
                methods_decl = Some {''GET'', ''POST'', ''PUT'', ''DELETE''},
                url = [], is_automap = False\<rparr>])
        True True None (Some ''reports/report_id/int'')
    of Inl e \<Rightarrow> [] | Inr a \<Rightarrow> map (\<lambda>r. (rule r, rule_methods r)) (url_map a))
   = [(''/artist/'', {''GET''}), (''/artist/meta'', {''GET''}), (''/artist/'', {''POST''}),
      (''/artist/<int:resource_id>'', {''GET'', ''PUT'', ''DELETE''}),
      (''/reports/'', {''GET''}), (''/reports/meta'', {''GET''}), (''/reports/'', {''POST''}),
      (''/reports/<int:resource_id>'', {''GET''})]
   \<and> (case get_app
        \<lparr>automap_classes =
           [\<lparr>cls_name = ''artist'', tablename = ''artist'',
             table_columns = [\<lparr>col_name = ''id'', col_type = Integer,
                               col_nullable = False, col_primary_key = True\<rparr>],
             methods_decl = Some {''GET'', ''POST'', ''PUT'', ''DELETE''},
             url = [], is_automap = True\<rparr>],
         reflect_table = Map.empty\<rparr>
        ''sqlite:///db.sqlite3'' None None True True None None
    of Inl e \<Rightarrow> [] | Inr a \<Rightarrow> map (\<lambda>r. (rule r, rule_methods r)) (url_map a))
   = [(''/artist/'', {''GET''}), (''/artist/meta'', {''GET''}),
      (''/artist/<int:resource_id>'', {''GET''})]"
  by (simp add: get_app_views get_app_no_views truthy_def list_of_def
        register_user_models_def reflect_all_def excluded_def url_map_prepare
        l_viewpktype_tuple_def view_model_def bindable_def isidentifier_def kwlist_def Let_def pktype_of_def attach_columns_def
        rule_pairs_register_model methods_of_registered url_map_new_app
        primary_key_type_def primary_key_columns_def isinstance_def
        lower_def lower_char_def insert_Diff_if)

subsection \<open>C2: the order of the discovery modes\<close>

text \<open>
  Claim C2 says that with a non-empty list of user models, full reflection enabled and
  a view specification, all three modes run. In this run the database has a table
  \<^verbatim>\<open>orders\<close> that reflection would register, \<^verbatim>\<open>reflect_all\<close> is \<open>True\<close>, and
  the registry ends with the user model and the view only: the \<^verbatim>\<open>elif\<close> of
  \<^verbatim>\<open>get_app\<close> skips reflection once user models are given.
\<close>

theorem get_app_reflection_skipped_counterexample:
  "(case get_app
        \<lparr>automap_classes =
           [\<lparr>cls_name = ''orders'', tablename = ''orders'',
             table_columns = [\<lparr>col_name = ''id'', col_type = Integer,
                               col_nullable = False, col_primary_key = True\<rparr>],
             methods_decl = None, url = [], is_automap = True\<rparr>],
         reflect_table =
           [''reports'' \<mapsto> [\<lparr>col_name = ''report_id'', col_type = Integer,
                                col_nullable = True, col_primary_key = False\<rparr>]]\<rparr>
        ''sqlite:///db.sqlite3'' None
        (Some [\<lparr>cls_name = ''Artist'', tablename = ''artist'',
                table_columns = [\<lparr>col_name = ''id'', col_type = Integer,
                                  col_nullable = False, col_primary_key = True\<rparr>],
                methods_decl = None, url = [], is_automap = False\<rparr>])
        True False None (Some ''reports/report_id/int'')
    of Inl e \<Rightarrow> [] | Inr a \<Rightarrow> map (\<lambda>s. cls_name (service_model s)) (classes a))
   = [''Artist'', ''reports'']"
  by (simp add: get_app_views get_app_no_views truthy_def list_of_def
        l_viewpktype_tuple_def view_model_def bindable_def isidentifier_def kwlist_def Let_def classes_register_model
        classes_register_user_models classes_new_app service_class_def set_url_def)

text \<open>
  Claim C2, amended. With a non-empty list of user models and a view specification,
  \<^verbatim>\<open>get_app\<close> registers the user models first and the views of the specification
  after them, whatever \<^verbatim>\<open>reflect_all\<close> is: the application is the result of
  \<^verbatim>\<open>_register_view_models\<close> on the state that \<^verbatim>\<open>_register_user_models\<close> leaves,
  and when it is built its registry is the user models' services in their order
  followed by the views' services in theirs, with nothing from reflection. Full
  reflection runs, ahead of the views, only when no user models are given
  (\<^verbatim>\<open>None\<close> or the empty list).
\<close>

theorem get_app_discovery_order:
  "(user_models \<noteq> [] \<longrightarrow>
      get_app db uri ex (Some user_models) flag ro schema (Some s) =
        register_view_models db (l_viewpktype_tuple s) True schema
          (register_user_models user_models True schema (new_app uri ro)))
   \<and> (user_models \<noteq> [] \<and>
        get_app db uri ex (Some user_models) flag ro schema (Some s) = Inr a \<longrightarrow>
        take (length user_models) (classes a) =
          map (\<lambda>m. service_class (set_url m)) user_models
        \<and> (\<exists>views. map (view_model db) (l_viewpktype_tuple s) = map Inr views
              \<and> drop (length user_models) (classes a) =
                  map (\<lambda>m. service_class (set_url m)) views))
   \<and> (\<not> truthy um \<longrightarrow>
        get_app db uri ex um True ro schema (Some s) =
          register_view_models db (l_viewpktype_tuple s) True schema
            (reflect_all db ex True ro schema (new_app uri ro)))"
proof (intro conjI impI)
  assume "user_models \<noteq> []"
  then show "get_app db uri ex (Some user_models) flag ro schema (Some s) =
        register_view_models db (l_viewpktype_tuple s) True schema
          (register_user_models user_models True schema (new_app uri ro))"
    by (simp add: get_app_def Let_def truthy_def list_of_def)
next
  assume "\<not> truthy um"
  then show "get_app db uri ex um True ro schema (Some s) =
          register_view_models db (l_viewpktype_tuple s) True schema
            (reflect_all db ex True ro schema (new_app uri ro))"
    by (simp add: get_app_def Let_def)
next
  assume h: "user_models \<noteq> [] \<and>
        get_app db uri ex (Some user_models) flag ro schema (Some s) = Inr a"
  let ?a1 = "register_user_models user_models True schema (new_app uri ro)"
  have ne: "user_models \<noteq> []"
    and g: "get_app db uri ex (Some user_models) flag ro schema (Some s) = Inr a"
    using h by simp_all
  have run: "register_view_models db (l_viewpktype_tuple s) True schema ?a1 = Inr a"
    using g ne by (simp add: get_app_def Let_def truthy_def list_of_def)
  obtain views where views: "map (view_model db) (l_viewpktype_tuple s) = map Inr views"
      "classes a = classes ?a1 @ map (\<lambda>m. service_class (set_url m)) views"
    using register_view_models_classes [OF run] by blast
  have a1: "classes ?a1 = map (\<lambda>m. service_class (set_url m)) user_models"
    by (simp add: classes_register_user_models classes_new_app)
  show "take (length user_models) (classes a) =
          map (\<lambda>m. service_class (set_url m)) user_models"
    by (simp add: views(2) a1)
  show "\<exists>views. map (view_model db) (l_viewpktype_tuple s) = map Inr views
              \<and> drop (length user_models) (classes a) =
                  map (\<lambda>m. service_class (set_url m)) views"
    using views(1) by (auto simp add: views(2) a1)
qed

text \<open>
  The amended C2 at one user model, the view specification
  \<^verbatim>\<open>reports/report_id/int\<close> and \<^verbatim>\<open>reflect_all=True\<close>.
\<close>

theorem get_app_discovery_order_witness:
  "get_app
      \<lparr>automap_classes =
         [\<lparr>cls_name = ''orders'', tablename = ''orders'',
           table_columns = [\<lparr>col_name = ''id'', col_type = Integer,
                             col_nullable = False, col_primary_key = True\<rparr>],
           methods_decl = None, url = [], is_automap = True\<rparr>],
       reflect_table =
         [''reports'' \<mapsto> [\<lparr>col_name = ''report_id'', col_type = Integer,
                              col_nullable = True, col_primary_key = False\<rparr>]]\<rparr>
      ''sqlite:///db.sqlite3'' None
      (Some [\<lparr>cls_name = ''Artist'', tablename = ''artist'',
              table_columns = [\<lparr>col_name = ''id'', col_type = Integer,
                                col_nullable = False, col_primary_key = True\<rparr>],
              methods_decl = None, url = [], is_automap = False\<rparr>])
      True False None (Some ''reports/report_id/int'')
   = register_view_models
      \<lparr>automap_classes =
         [\<lparr>cls_name = ''orders'', tablename = ''orders'',
           table_columns = [\<lparr>col_name = ''id'', col_type = Integer,
                             col_nullable = False, col_primary_key = True\<rparr>],
           methods_decl = None, url = [], is_automap = True\<rparr>],
       reflect_table =
         [''reports'' \<mapsto> [\<lparr>col_name = ''report_id'', col_type = Integer,
                              col_nullable = True, col_primary_key = False\<rparr>]]\<rparr>
      [[''reports'', ''report_id'', ''int'']] True None
      (register_user_models
         [\<lparr>cls_name = ''Artist'', tablename = ''artist'',
           table_columns = [\<lparr>col_name = ''id'', col_type = Integer,
                             col_nullable = False, col_primary_key = True\<rparr>],
           methods_decl = None, url = [], is_automap = False\<rparr>]
         True None (new_app ''sqlite:///db.sqlite3'' False))"
  using get_app_discovery_order
    [where user_models = "[\<lparr>cls_name = ''Artist'', tablename = ''artist'',
              table_columns = [\<lparr>col_name = ''id'', col_type = Integer,
                                col_nullable = False, col_primary_key = True\<rparr>],
              methods_decl = None, url = [], is_automap = False\<rparr>]"
       and db = "\<lparr>automap_classes =
         [\<lparr>cls_name = ''orders'', tablename = ''orders'',
           table_columns = [\<lparr>col_name = ''id'', col_type = Integer,
                             col_nullable = False, col_primary_key = True\<rparr>],
           methods_decl = None, url = [], is_automap = True\<rparr>],
       reflect_table =
         [''reports'' \<mapsto> [\<lparr>col_name = ''report_id'', col_type = Integer,
                              col_nullable = True, col_primary_key = False\<rparr>]]\<rparr>"
       and uri = "''sqlite:///db.sqlite3''" and ex = None and flag = True and ro = False
       and schema = None and s = "''reports/report_id/int''" and um = None
       and a = "new_app [] False"]
  by (simp add: l_viewpktype_tuple_def)

subsection \<open>C3: the primary-key routing type\<close>




subsection \<open>C4: the routes of a resource with the default methods\<close>

text \<open>
  Claim C4. For a model class that does not declare \<^verbatim>\<open>__methods__\<close>, the allowed
  methods are exactly \<open>{GET, POST}\<close>, and \<^verbatim>\<open>register_model\<close> adds exactly four
  rules, in this order: \<^verbatim>\<open>GET\<close> on the collection path \<open>url_prefix/\<close>, \<^verbatim>\<open>GET\<close>
  on \<open>url_prefix/meta\<close>, \<^verbatim>\<open>POST\<close> on the collection path, and the item path
  \<open>url_prefix/<type:resource_id>\<close>, typed by the resolved primary-key routing type, for
  \<open>{GET}\<close>, that is for every allowed method except \<^verbatim>\<open>POST\<close>. With the read-only
  flag unset, reflection hands a class that is not excluded to \<^verbatim>\<open>register_model\<close>
  unchanged.
\<close>

theorem default_methods_routes:
  assumes "methods_decl cls = None"
  shows "methods_of (service_class (set_url cls)) = {''GET'', ''POST''}
   \<and> url_map (register_model cls admin a) = url_map a @
     [\<lparr>rule = ''/'' @ lower (cls_name cls) @ ''/'', defaults_resource_id = True,
       view_func = as_view (service_class (set_url cls)) (lower (cls_name cls @ ''Service'')),
       rule_methods = {''GET''}\<rparr>,
      \<lparr>rule = ''/'' @ lower (cls_name cls) @ ''/meta'', defaults_resource_id = False,
       view_func = as_view (service_class (set_url cls)) (lower (cls_name cls @ ''Service'')),
       rule_methods = {''GET''}\<rparr>,
      \<lparr>rule = ''/'' @ lower (cls_name cls) @ ''/'', defaults_resource_id = False,
       view_func = as_view (service_class (set_url cls)) (lower (cls_name cls @ ''Service'')),
       rule_methods = {''POST''}\<rparr>,
      \<lparr>rule = ''/'' @ lower (cls_name cls) @ ''/<''
                @ primary_key_type (primary_key_columns cls) @ '':resource_id>'',
       defaults_resource_id = False,
       view_func = as_view (service_class (set_url cls)) (lower (cls_name cls @ ''Service'')),
       rule_methods = {''GET''}\<rparr>]
   \<and> reflect_loop exclude_tables admin False [cls] a =
       (if excluded exclude_tables cls then a else register_model cls admin a)"
proof (intro conjI)
  have m: "methods_decl (service_model (service_class (set_url cls))) = None"
    using assms by (simp add: service_class_def set_url_def)
  show "methods_of (service_class (set_url cls)) = {''GET'', ''POST''}"
    using m by (simp add: methods_of_def)
  have u: "url (service_model (service_class (set_url cls))) = ''/'' @ lower (cls_name cls)"
    by (simp add: service_class_def set_url_def)
  have n: "service_name (service_class (set_url cls)) = cls_name cls @ ''Service''"
    by (simp add: service_class_def set_url_def)
  show "url_map (register_model cls admin a) = url_map a @
     [\<lparr>rule = ''/'' @ lower (cls_name cls) @ ''/'', defaults_resource_id = True,
       view_func = as_view (service_class (set_url cls)) (lower (cls_name cls @ ''Service'')),
       rule_methods = {''GET''}\<rparr>,
      \<lparr>rule = ''/'' @ lower (cls_name cls) @ ''/meta'', defaults_resource_id = False,
       view_func = as_view (service_class (set_url cls)) (lower (cls_name cls @ ''Service'')),
       rule_methods = {''GET''}\<rparr>,
      \<lparr>rule = ''/'' @ lower (cls_name cls) @ ''/'', defaults_resource_id = False,
       view_func = as_view (service_class (set_url cls)) (lower (cls_name cls @ ''Service'')),
       rule_methods = {''POST''}\<rparr>,
      \<lparr>rule = ''/'' @ lower (cls_name cls) @ ''/<''
                @ primary_key_type (primary_key_columns cls) @ '':resource_id>'',
       defaults_resource_id = False,
       view_func = as_view (service_class (set_url cls)) (lower (cls_name cls @ ''Service'')),
       rule_methods = {''GET''}\<rparr>]"
    by (simp only: url_map_register_model url_map_register_service_default [OF m] u n
          append_assoc)
  show "reflect_loop exclude_tables admin False [cls] a =
       (if excluded exclude_tables cls then a else register_model cls admin a)"
    by (simp only: reflect_loop.simps if_False)
qed

text \<open>
  C4 at a model \<^verbatim>\<open>Artist\<close> with an integer key.
\<close>

theorem default_methods_routes_witness:
  "map (\<lambda>r. (rule r, defaults_resource_id r, rule_methods r))
     (url_map (register_model
        \<lparr>cls_name = ''Artist'', tablename = ''artist'',
         table_columns = [\<lparr>col_name = ''id'', col_type = Integer,
                           col_nullable = False, col_primary_key = True\<rparr>],
         methods_decl = None, url = [], is_automap = False\<rparr>
        True (new_app ''sqlite:///db.sqlite3'' False)))
   = [(''/artist/'', True, {''GET''}), (''/artist/meta'', False, {''GET''}),
      (''/artist/'', False, {''POST''}), (''/artist/<int:resource_id>'', False, {''GET''})]"
  using default_methods_routes
    [of "\<lparr>cls_name = ''Artist'', tablename = ''artist'',
         table_columns = [\<lparr>col_name = ''id'', col_type = Integer,
                           col_nullable = False, col_primary_key = True\<rparr>],
         methods_decl = None, url = [], is_automap = False\<rparr>"
        True "new_app ''sqlite:///db.sqlite3'' False" None]
  by (simp add: url_map_new_app lower_def lower_char_def primary_key_type_def
        primary_key_columns_def isinstance_def)

subsection \<open>C5: ad-hoc view specifications\<close>



subsection \<open>C6: a resource with no primary-key column\<close>

text \<open>
  Claim C6 says that registering a resource with no primary-key column aborts the
  construction of the application. For a user model whose only column is not a
  primary key, \<^verbatim>\<open>get_app\<close> returns the application, with the item rule typed
  \<^verbatim>\<open>string\<close>.
\<close>

theorem zero_primary_key_registers_counterexample:
  "(case get_app
        \<lparr>automap_classes = [], reflect_table = Map.empty\<rparr>
        ''sqlite:///db.sqlite3'' None
        (Some [\<lparr>cls_name = ''Log'', tablename = ''log'',
                table_columns = [\<lparr>col_name = ''message'', col_type = Text,
                                  col_nullable = True, col_primary_key = False\<rparr>],
                methods_decl = None, url = [], is_automap = False\<rparr>])
        True False None None
    of Inl e \<Rightarrow> [] | Inr a \<Rightarrow> map (\<lambda>r. (rule r, rule_methods r)) (url_map a))
   = [(''/log/'', {''GET''}), (''/log/meta'', {''GET''}), (''/log/'', {''POST''}),
      (''/log/<string:resource_id>'', {''GET''})]"
  by (simp add: get_app_no_views truthy_def list_of_def register_user_models_def
        rule_pairs_register_model methods_of_registered url_map_new_app
        primary_key_type_def primary_key_columns_def
        lower_def lower_char_def insert_Diff_if)

text \<open>
  Claim C6, amended. \<^verbatim>\<open>register_model\<close> does not reject a class with no primary-key
  column: the routing type is the default \<^verbatim>\<open>'string'\<close>, the class is appended to the
  registry, its item rule is bound as \<open>url_prefix/<string:resource_id>\<close>, and
  \<^verbatim>\<open>get_app\<close> on such a user model returns the application.
\<close>

theorem zero_primary_key_defaults_to_string:
  assumes "primary_key_columns cls = []"
  shows "primary_key_type (primary_key_columns cls) = ''string''
   \<and> classes (register_model cls admin a) = classes a @ [service_class (set_url cls)]
   \<and> \<lparr>rule = ''/'' @ lower (cls_name cls) @ ''/<string:resource_id>'',
       defaults_resource_id = False,
       view_func = as_view (service_class (set_url cls)) (lower (cls_name cls @ ''Service'')),
       rule_methods = methods_of (service_class (set_url cls)) - {''POST''}\<rparr>
      \<in> set (url_map (register_model cls admin a))
   \<and> get_app db uri ex (Some [cls]) flag ro schema None =
       Inr (register_model cls True
              ((if is_automap cls then prepare schema else id) (new_app uri ro)))"
proof (intro conjI)
  show t: "primary_key_type (primary_key_columns cls) = ''string''"
    by (simp add: assms primary_key_type_def)
  show "classes (register_model cls admin a) = classes a @ [service_class (set_url cls)]"
    by (rule classes_register_model)
  show "\<lparr>rule = ''/'' @ lower (cls_name cls) @ ''/<string:resource_id>'',
       defaults_resource_id = False,
       view_func = as_view (service_class (set_url cls)) (lower (cls_name cls @ ''Service'')),
       rule_methods = methods_of (service_class (set_url cls)) - {''POST''}\<rparr>
      \<in> set (url_map (register_model cls admin a))"
    using item_rule_register_model [of cls admin a] by (simp add: t)
  show "get_app db uri ex (Some [cls]) flag ro schema None =
       Inr (register_model cls True
              ((if is_automap cls then prepare schema else id) (new_app uri ro)))"
    by (simp add: get_app_no_views truthy_def list_of_def register_user_models_def)
qed

text \<open>
  The amended C6 at a model \<^verbatim>\<open>Log\<close> whose only column is not a primary key.
\<close>

theorem zero_primary_key_defaults_to_string_witness:
  "primary_key_type (primary_key_columns
      \<lparr>cls_name = ''Log'', tablename = ''log'',
       table_columns = [\<lparr>col_name = ''message'', col_type = Text,
                         col_nullable = True, col_primary_key = False\<rparr>],
       methods_decl = None, url = [], is_automap = False\<rparr>) = ''string''
   \<and> get_app \<lparr>automap_classes = [], reflect_table = Map.empty\<rparr>
       ''sqlite:///db.sqlite3'' None
       (Some [\<lparr>cls_name = ''Log'', tablename = ''log'',
               table_columns = [\<lparr>col_name = ''message'', col_type = Text,
                                 col_nullable = True, col_primary_key = False\<rparr>],
               methods_decl = None, url = [], is_automap = False\<rparr>])
       True False None None =
     Inr (register_model
       \<lparr>cls_name = ''Log'', tablename = ''log'',
        table_columns = [\<lparr>col_name = ''message'', col_type = Text,
                          col_nullable = True, col_primary_key = False\<rparr>],
        methods_decl = None, url = [], is_automap = False\<rparr>
       True (new_app ''sqlite:///db.sqlite3'' False))"
  using zero_primary_key_defaults_to_string
    [of "\<lparr>cls_name = ''Log'', tablename = ''log'',
       table_columns = [\<lparr>col_name = ''message'', col_type = Text,
                         col_nullable = True, col_primary_key = False\<rparr>],
       methods_decl = None, url = [], is_automap = False\<rparr>"
       True "new_app ''sqlite:///db.sqlite3'' False"
       "\<lparr>automap_classes = [], reflect_table = Map.empty\<rparr>"
       "''sqlite:///db.sqlite3''" None True False None]
  by (simp add: primary_key_columns_def)

subsection \<open>C7: malformed view specifications\<close>




subsection \<open>C8: the index endpoint\<close>

text \<open>
  Claim C8 says that the response to \<^verbatim>\<open>GET /\<close> always has one entry per registered
  resource, in the registry's insertion order. For the user models \<^verbatim>\<open>Track\<close> and
  \<^verbatim>\<open>Artist\<close>, registered in that order, the entry of \<^verbatim>\<open>Artist\<close> comes first in
  the response: \<^verbatim>\<open>jsonify\<close> writes the keys in sorted order. For the user model
  \<^verbatim>\<open>Log\<close>, which is registered without a primary-key column, the view has no
  response.
\<close>

theorem index_order_counterexample:
  "map (\<lambda>s. cls_name (service_model s))
     (classes (projr (get_app \<lparr>automap_classes = [], reflect_table = Map.empty\<rparr>
        ''sqlite:///db.sqlite3'' None
        (Some [\<lparr>cls_name = ''Track'', tablename = ''track'',
          table_columns = [\<lparr>col_name = ''title'', col_type = String,
                            col_nullable = True, col_primary_key = False\<rparr>,
                           \<lparr>col_name = ''id'', col_type = Integer,
                            col_nullable = False, col_primary_key = True\<rparr>],
          methods_decl = None, url = [], is_automap = False\<rparr>,
               \<lparr>cls_name = ''Artist'', tablename = ''artist'',
          table_columns = [\<lparr>col_name = ''name'', col_type = String,
                            col_nullable = True, col_primary_key = False\<rparr>,
                           \<lparr>col_name = ''artist_id'', col_type = Integer,
                            col_nullable = False, col_primary_key = True\<rparr>],
          methods_decl = None, url = [], is_automap = False\<rparr>])
        True False None None)))
   = [''Track'', ''Artist'']
   \<and> index (projr (get_app \<lparr>automap_classes = [], reflect_table = Map.empty\<rparr>
        ''sqlite:///db.sqlite3'' None
        (Some [\<lparr>cls_name = ''Track'', tablename = ''track'',
          table_columns = [\<lparr>col_name = ''title'', col_type = String,
                            col_nullable = True, col_primary_key = False\<rparr>,
                           \<lparr>col_name = ''id'', col_type = Integer,
                            col_nullable = False, col_primary_key = True\<rparr>],
          methods_decl = None, url = [], is_automap = False\<rparr>,
               \<lparr>cls_name = ''Artist'', tablename = ''artist'',
          table_columns = [\<lparr>col_name = ''name'', col_type = String,
                            col_nullable = True, col_primary_key = False\<rparr>,
                           \<lparr>col_name = ''artist_id'', col_type = Integer,
                            col_nullable = False, col_primary_key = True\<rparr>],
          methods_decl = None, url = [], is_automap = False\<rparr>])
        True False None None))
   = Some [(''Artist'', ''/artist{/artist_id}''), (''Track'', ''/track{/id}'')]
   \<and> index (projr (get_app \<lparr>automap_classes = [], reflect_table = Map.empty\<rparr>
        ''sqlite:///db.sqlite3'' None
        (Some [\<lparr>cls_name = ''Log'', tablename = ''log'',
          table_columns = [\<lparr>col_name = ''message'', col_type = Text,
                            col_nullable = True, col_primary_key = False\<rparr>],
          methods_decl = None, url = [], is_automap = False\<rparr>])
        True False None None))
   = None"
  by (simp add: get_app_no_views truthy_def list_of_def classes_register_user_models
        classes_new_app index_def jsonify_def primary_key_def primary_key_columns_def
        service_class_def set_url_def lower_def lower_char_def less_eq_char_def)

text \<open>
  Claim C8, amended. When the registered resources have distinct names and each has
  exactly one primary-key column, the response to \<^verbatim>\<open>GET /\<close> has exactly one entry per
  registered resource, keyed by the resource's name, with the value \<open>url{/pk}\<close>,
  where \<open>pk\<close> is the name of that column; the entries are in the sorted order of their
  keys, not in the order of the registry. For an application built by \<^verbatim>\<open>get_app\<close>
  the value is \<open>/name{/pk}\<close> with the name in lower case.
\<close>

theorem index_one_entry_per_resource:
  assumes "distinct (map (\<lambda>s. cls_name (service_model s)) (classes a))"
    and "\<forall>s \<in> set (classes a).
           pk s \<in> set (table_columns (service_model s)) \<and> col_primary_key (pk s)
           \<and> (\<forall>c \<in> set (table_columns (service_model s)). col_primary_key c \<longrightarrow> c = pk s)"
  shows "index a =
     Some (sort_key fst
             (map (\<lambda>s. (cls_name (service_model s),
                      url (service_model s) @ ''{/'' @ col_name (pk s) @ ''}''))
                (classes a)))
   \<and> map_option length (index a) = Some (length (classes a))
   \<and> (get_app db uri ex um flag ro schema sv = Inr a \<longrightarrow>
        index a =
          Some (sort_key fst
                  (map (\<lambda>s. (cls_name (service_model s),
                           ''/'' @ lower (cls_name (service_model s)) @ ''{/''
                             @ col_name (pk s) @ ''}''))
                     (classes a))))"
proof -
  have one: "\<forall>s \<in> set (classes a). primary_key_columns (service_model s) \<noteq> []"
    using assms(2) sole_primary_key(1) by blast
  have key: "\<And>s. s \<in> set (classes a) \<Longrightarrow> hd (primary_key_columns (service_model s)) = pk s"
    using assms(2) sole_primary_key(2) by blast
  have loop: "index_loop (classes a) [] =
     Some (map (\<lambda>s. (cls_name (service_model s),
                  url (service_model s) @ ''{/''
                    @ col_name (hd (primary_key_columns (service_model s))) @ ''}''))
             (classes a))"
    using index_loop_distinct [OF assms(1) one, of "[]"] by simp
  have same: "map (\<lambda>s. (cls_name (service_model s),
                  url (service_model s) @ ''{/''
                    @ col_name (hd (primary_key_columns (service_model s))) @ ''}''))
             (classes a) =
        map (\<lambda>s. (cls_name (service_model s),
                  url (service_model s) @ ''{/'' @ col_name (pk s) @ ''}''))
             (classes a)"
    using key by simp
  have i: "index a =
     Some (sort_key fst
             (map (\<lambda>s. (cls_name (service_model s),
                      url (service_model s) @ ''{/'' @ col_name (pk s) @ ''}''))
                (classes a)))"
    by (simp only: index_def loop same option.map jsonify_def)
  have len: "map_option length (index a) = Some (length (classes a))"
    by (simp add: i)
  have built: "index a =
          Some (sort_key fst
                  (map (\<lambda>s. (cls_name (service_model s),
                           ''/'' @ lower (cls_name (service_model s)) @ ''{/''
                             @ col_name (pk s) @ ''}''))
                     (classes a)))"
    if g: "get_app db uri ex um flag ro schema sv = Inr a"
  proof -
    have eq: "map (\<lambda>s. (cls_name (service_model s),
                  url (service_model s) @ ''{/'' @ col_name (pk s) @ ''}''))
             (classes a) =
        map (\<lambda>s. (cls_name (service_model s),
                  ''/'' @ lower (cls_name (service_model s)) @ ''{/''
                    @ col_name (pk s) @ ''}''))
             (classes a)"
      using get_app_urls [OF g] by simp
    show ?thesis by (simp only: i eq)
  qed
  show ?thesis using i len built by blast
qed

text \<open>
  The amended C8 at the application built from the user models \<^verbatim>\<open>Track\<close> and
  \<^verbatim>\<open>Artist\<close>, whose keys \<^verbatim>\<open>id\<close> and \<^verbatim>\<open>artist_id\<close> are not the first columns
  of their tables.
\<close>

theorem index_one_entry_per_resource_witness:
  "get_app \<lparr>automap_classes = [], reflect_table = Map.empty\<rparr>
      ''sqlite:///db.sqlite3'' None
      (Some [\<lparr>cls_name = ''Track'', tablename = ''track'',
          table_columns = [\<lparr>col_name = ''title'', col_type = String,
                            col_nullable = True, col_primary_key = False\<rparr>,
                           \<lparr>col_name = ''id'', col_type = Integer,
                            col_nullable = False, col_primary_key = True\<rparr>],
          methods_decl = None, url = [], is_automap = False\<rparr>,
             \<lparr>cls_name = ''Artist'', tablename = ''artist'',
          table_columns = [\<lparr>col_name = ''name'', col_type = String,
                            col_nullable = True, col_primary_key = False\<rparr>,
                           \<lparr>col_name = ''artist_id'', col_type = Integer,
                            col_nullable = False, col_primary_key = True\<rparr>],
          methods_decl = None, url = [], is_automap = False\<rparr>])
      True False None None
   = Inr (register_user_models
        [\<lparr>cls_name = ''Track'', tablename = ''track'',
          table_columns = [\<lparr>col_name = ''title'', col_type = String,
                            col_nullable = True, col_primary_key = False\<rparr>,
                           \<lparr>col_name = ''id'', col_type = Integer,
                            col_nullable = False, col_primary_key = True\<rparr>],
          methods_decl = None, url = [], is_automap = False\<rparr>,
         \<lparr>cls_name = ''Artist'', tablename = ''artist'',
          table_columns = [\<lparr>col_name = ''name'', col_type = String,
                            col_nullable = True, col_primary_key = False\<rparr>,
                           \<lparr>col_name = ''artist_id'', col_type = Integer,
                            col_nullable = False, col_primary_key = True\<rparr>],
          methods_decl = None, url = [], is_automap = False\<rparr>]
        True None (new_app ''sqlite:///db.sqlite3'' False))
   \<and> index (register_user_models
        [\<lparr>cls_name = ''Track'', tablename = ''track'',
          table_columns = [\<lparr>col_name = ''title'', col_type = String,
                            col_nullable = True, col_primary_key = False\<rparr>,
                           \<lparr>col_name = ''id'', col_type = Integer,
                            col_nullable = False, col_primary_key = True\<rparr>],
          methods_decl = None, url = [], is_automap = False\<rparr>,
         \<lparr>cls_name = ''Artist'', tablename = ''artist'',
          table_columns = [\<lparr>col_name = ''name'', col_type = String,
                            col_nullable = True, col_primary_key = False\<rparr>,
                           \<lparr>col_name = ''artist_id'', col_type = Integer,
                            col_nullable = False, col_primary_key = True\<rparr>],
          methods_decl = None, url = [], is_automap = False\<rparr>]
        True None (new_app ''sqlite:///db.sqlite3'' False))
   = Some [(''Artist'', ''/artist{/artist_id}''), (''Track'', ''/track{/id}'')]"
  using index_one_entry_per_resource
    [where a = "register_user_models
        [\<lparr>cls_name = ''Track'', tablename = ''track'',
          table_columns = [\<lparr>col_name = ''title'', col_type = String,
                            col_nullable = True, col_primary_key = False\<rparr>,
                           \<lparr>col_name = ''id'', col_type = Integer,
                            col_nullable = False, col_primary_key = True\<rparr>],
          methods_decl = None, url = [], is_automap = False\<rparr>,
         \<lparr>cls_name = ''Artist'', tablename = ''artist'',
          table_columns = [\<lparr>col_name = ''name'', col_type = String,
                            col_nullable = True, col_primary_key = False\<rparr>,
                           \<lparr>col_name = ''artist_id'', col_type = Integer,
                            col_nullable = False, col_primary_key = True\<rparr>],
          methods_decl = None, url = [], is_automap = False\<rparr>]
        True None (new_app ''sqlite:///db.sqlite3'' False)"
       and pk = "\<lambda>s. if cls_name (service_model s) = ''Track''
                  then \<lparr>col_name = ''id'', col_type = Integer,
                        col_nullable = False, col_primary_key = True\<rparr>
                  else \<lparr>col_name = ''artist_id'', col_type = Integer,
                        col_nullable = False, col_primary_key = True\<rparr>"
       and db = "\<lparr>automap_classes = [], reflect_table = Map.empty\<rparr>"
       and uri = "''sqlite:///db.sqlite3''" and ex = None
       and um = "Some [\<lparr>cls_name = ''Track'', tablename = ''track'',
          table_columns = [\<lparr>col_name = ''title'', col_type = String,
                            col_nullable = True, col_primary_key = False\<rparr>,
                           \<lparr>col_name = ''id'', col_type = Integer,
                            col_nullable = False, col_primary_key = True\<rparr>],
          methods_decl = None, url = [], is_automap = False\<rparr>,
             \<lparr>cls_name = ''Artist'', tablename = ''artist'',
          table_columns = [\<lparr>col_name = ''name'', col_type = String,
                            col_nullable = True, col_primary_key = False\<rparr>,
                           \<lparr>col_name = ''artist_id'', col_type = Integer,
                            col_nullable = False, col_primary_key = True\<rparr>],
          methods_decl = None, url = [], is_automap = False\<rparr>]"
       and flag = True and ro = False and schema = None and sv = None]
  by (simp add: get_app_no_views truthy_def list_of_def classes_register_user_models
        classes_new_app service_class_def set_url_def lower_def lower_char_def
        less_eq_char_def)

subsection \<open>C9: excluded tables\<close>

text \<open>
  Claim C9. For a table name \<open>t\<close> in the exclusion list, \<^verbatim>\<open>_reflect_all\<close>
  registers exactly the reflected classes whose table is not in the list, in order:
  no service it appends to the registry is on the table \<open>t\<close>, the rules bound before
  stay as they are, and no rule it adds dispatches to a class on the table \<open>t\<close>.
\<close>

theorem reflect_all_skips_excluded:
  assumes "t \<in> set exclude_tables"
  shows "classes (reflect_all db (Some exclude_tables) admin read_only schema a) =
       classes a @
       map (\<lambda>c. service_class
                  (set_url (if read_only then c\<lparr>methods_decl := Some {''GET''}\<rparr> else c)))
         (filter (\<lambda>c. tablename c \<notin> set exclude_tables) (automap_classes db))
   \<and> (\<forall>s \<in> set (drop (length (classes a))
          (classes (reflect_all db (Some exclude_tables) admin read_only schema a))).
        tablename (service_model s) \<noteq> t)
   \<and> take (length (url_map a))
        (url_map (reflect_all db (Some exclude_tables) admin read_only schema a)) = url_map a
   \<and> (\<forall>r \<in> set (drop (length (url_map a))
          (url_map (reflect_all db (Some exclude_tables) admin read_only schema a))).
        tablename (service_model (view_class (view_func r))) \<noteq> t)"
proof -
  let ?a' = "reflect_all db (Some exclude_tables) admin read_only schema a"
  have ex: "\<And>c. excluded (Some exclude_tables) c = (tablename c \<in> set exclude_tables)"
    using assms by (rule excluded_Some)
  have cl: "classes ?a' = classes a @
       map (\<lambda>c. service_class
                  (set_url (if read_only then c\<lparr>methods_decl := Some {''GET''}\<rparr> else c)))
         (filter (\<lambda>c. tablename c \<notin> set exclude_tables) (automap_classes db))"
    by (simp add: reflect_all_def reflect_loop_classes prepare_def ex)
  have cl2: "\<forall>s \<in> set (drop (length (classes a)) (classes ?a')).
        tablename (service_model s) \<noteq> t"
    using assms by (auto simp add: cl service_class_def set_url_def)
  obtain rs where rs: "url_map ?a' = url_map a @ rs"
      "\<forall>r \<in> set rs. \<not> excluded (Some exclude_tables) (service_model (view_class (view_func r)))"
    using reflect_loop_rules [of "Some exclude_tables" admin read_only "automap_classes db"
        "prepare schema a"]
    by (auto simp add: reflect_all_def prepare_def)
  have r1: "take (length (url_map a)) (url_map ?a') = url_map a"
    by (simp add: rs(1))
  have r2: "\<forall>r \<in> set (drop (length (url_map a)) (url_map ?a')).
        tablename (service_model (view_class (view_func r))) \<noteq> t"
    using rs(2) assms by (auto simp add: rs(1) ex)
  show ?thesis using cl cl2 r1 r2 by blast
qed

text \<open>
  C9 at a database with the tables \<^verbatim>\<open>orders\<close> and \<^verbatim>\<open>customers\<close> and the
  exclusion list \<^verbatim>\<open>['orders']\<close>.
\<close>

theorem reflect_all_skips_excluded_witness:
  "map (\<lambda>s. cls_name (service_model s))
     (classes (reflect_all
        \<lparr>automap_classes =
           [\<lparr>cls_name = ''orders'', tablename = ''orders'',
             table_columns = [\<lparr>col_name = ''id'', col_type = Integer,
                               col_nullable = False, col_primary_key = True\<rparr>],
             methods_decl = None, url = [], is_automap = True\<rparr>,
            \<lparr>cls_name = ''customers'', tablename = ''customers'',
             table_columns = [\<lparr>col_name = ''id'', col_type = Integer,
                               col_nullable = False, col_primary_key = True\<rparr>],
             methods_decl = None, url = [], is_automap = True\<rparr>],
         reflect_table = Map.empty\<rparr>
        (Some [''orders'']) True False None (new_app ''sqlite:///db.sqlite3'' False)))
   = [''customers'']"
  using reflect_all_skips_excluded
    [of "''orders''" "[''orders'']"
        "\<lparr>automap_classes =
           [\<lparr>cls_name = ''orders'', tablename = ''orders'',
             table_columns = [\<lparr>col_name = ''id'', col_type = Integer,
                               col_nullable = False, col_primary_key = True\<rparr>],
             methods_decl = None, url = [], is_automap = True\<rparr>,
            \<lparr>cls_name = ''customers'', tablename = ''customers'',
             table_columns = [\<lparr>col_name = ''id'', col_type = Integer,
                               col_nullable = False, col_primary_key = True\<rparr>],
             methods_decl = None, url = [], is_automap = True\<rparr>],
         reflect_table = Map.empty\<rparr>"
        True False None "new_app ''sqlite:///db.sqlite3'' False"]
  by (simp add: classes_new_app service_class_def set_url_def)

subsection \<open>C10: the item-level rule is always added\<close>

text \<open>
  Claim C10. \<^verbatim>\<open>register_service\<close> adds the item rule
  \<open>url_prefix/<type:resource_id>\<close> last and on every call, with the allowed methods
  minus \<^verbatim>\<open>POST\<close>; for a class that declares \<^verbatim>\<open>__methods__ = {'POST'}\<close> the rules
  added are the \<^verbatim>\<open>POST\<close> rule of the collection path and the item rule with the
  empty method set.
\<close>

theorem item_rule_unconditional:
  "last (url_map (register_service cls pkt a)) =
     \<lparr>rule = url (service_model cls) @ ''/<'' @ pkt @ '':resource_id>'',
      defaults_resource_id = False,
      view_func = as_view cls (lower (service_name cls)),
      rule_methods = methods_of cls - {''POST''}\<rparr>
   \<and> length (url_map a) < length (url_map (register_service cls pkt a))
   \<and> (methods_decl (service_model cls) = Some {''POST''} \<longrightarrow>
        url_map (register_service cls pkt a) = url_map a @
          [\<lparr>rule = url (service_model cls) @ ''/'', defaults_resource_id = False,
            view_func = as_view cls (lower (service_name cls)), rule_methods = {''POST''}\<rparr>,
           \<lparr>rule = url (service_model cls) @ ''/<'' @ pkt @ '':resource_id>'',
            defaults_resource_id = False,
            view_func = as_view cls (lower (service_name cls)), rule_methods = {}\<rparr>])"
  by (simp add: register_service_def Let_def url_map_add_url_rule methods_of_def)

text \<open>
  C10 at a class \<^verbatim>\<open>Queue\<close> that declares \<^verbatim>\<open>__methods__ = {'POST'}\<close>.
\<close>

theorem item_rule_unconditional_witness:
  "map (\<lambda>r. (rule r, rule_methods r))
     (url_map (register_service
        \<lparr>service_name = ''QueueService'',
         service_model =
           \<lparr>cls_name = ''Queue'', tablename = ''queue'',
            table_columns = [\<lparr>col_name = ''id'', col_type = Integer,
                              col_nullable = False, col_primary_key = True\<rparr>],
            methods_decl = Some {''POST''}, url = ''/queue'', is_automap = False\<rparr>\<rparr>
        ''int'' (new_app ''sqlite:///db.sqlite3'' False)))
   = [(''/queue/'', {''POST''}), (''/queue/<int:resource_id>'', {})]"
  using item_rule_unconditional
    [of "\<lparr>service_name = ''QueueService'',
         service_model =
           \<lparr>cls_name = ''Queue'', tablename = ''queue'',
            table_columns = [\<lparr>col_name = ''id'', col_type = Integer,
                              col_nullable = False, col_primary_key = True\<rparr>],
            methods_decl = Some {''POST''}, url = ''/queue'', is_automap = False\<rparr>\<rparr>"
        "''int''" "new_app ''sqlite:///db.sqlite3'' False"]
  by (simp add: url_map_new_app)

end
